theory Spec2Isabelle
  imports Complex_Main "HOL-Library.Word" "HOL-Library.Signed_Division"
begin

section \<open>Event loop instrumentation: toolkit/xre/EventTracer.cpp\<close>

text \<open>
  The tracer thread fires synthetic events at the native event loop, measures how long
  each takes to be serviced, and writes a sample line when the time exceeds a threshold.
  This theory embeds \<^verbatim>\<open>TracerThread\<close>, \<^verbatim>\<open>InitEventTracing\<close> and
  \<^verbatim>\<open>ShutdownEventTracing\<close> and proves properties of them.
\<close>

subsection \<open>Machine types\<close>

type_synonym c_int = "32 word"
type_synonym PRIntervalTime = "32 word"
type_synonym PRTime = "64 word"

definition INT_MAX :: c_int where
  "INT_MAX = 0x7FFFFFFF"

definition INT_MIN :: c_int where
  "INT_MIN = 0x80000000"

definition PR_USEC_PER_MSEC :: int where
  "PR_USEC_PER_MSEC = 1000"

text \<open>
  \<^verbatim>\<open>PR_Now() / PR_USEC_PER_MSEC\<close>: a signed 64-bit division, which truncates
  towards zero; \<^verbatim>\<open>%llu\<close> then prints the quotient read as unsigned.
\<close>

definition msec_since_epoch :: "PRTime \<Rightarrow> nat" where
  "msec_since_epoch now = unat (word_of_int (sint now sdiv PR_USEC_PER_MSEC) :: 64 word)"

text \<open>
  A \<^verbatim>\<open>double\<close> is modelled by the real number it denotes (the durations measured
  here are finite). Comparing a double with an integer and converting it to \<^verbatim>\<open>int\<close>
  are exact operations. The conversion truncates towards zero; C++ leaves it undefined
  when the truncated value is not representable in \<^verbatim>\<open>int\<close>, which is \<open>None\<close> here.
\<close>

definition truncate_double :: "real \<Rightarrow> int" where
  "truncate_double x = (if 0 \<le> x then \<lfloor>x\<rfloor> else \<lceil>x\<rceil>)"

definition double_to_int :: "real \<Rightarrow> c_int option" where
  "double_to_int x =
     (let t = truncate_double x
      in if - (2 ^ 31) \<le> t \<and> t < 2 ^ 31 then Some (word_of_int t) else None)"

text \<open>
  \<^verbatim>\<open>mozilla::TimeDuration\<close> is used through two of its methods only, both returning
  \<^verbatim>\<open>double\<close>; a duration is the pair of their results.
\<close>

record TimeDuration =
  ToMilliseconds :: real
  ToSecondsSigDigits :: real

subsection \<open>Library functions the thread calls\<close>

text \<open>
  \<^verbatim>\<open>atoi\<close> (C library), \<^verbatim>\<open>PR_MillisecondsToInterval\<close> (NSPR; the result is in
  platform ticks) and the multiplication of two doubles are parameters of the embedding,
  so every theorem below holds for each implementation of them.
\<close>

record externals =
  atoi :: "string \<Rightarrow> c_int"
  PR_MillisecondsToInterval :: "32 word \<Rightarrow> PRIntervalTime"
  double_times :: "real \<Rightarrow> real \<Rightarrow> real"

text \<open>
  The number a decimal string denotes, read as the C standard prescribes for
  \<^verbatim>\<open>atoi\<close>: leading white space is skipped, an optional sign is read, then decimal
  digits up to the first other character. The standard fixes the result of
  \<^verbatim>\<open>atoi\<close> only when this number fits \<^verbatim>\<open>int\<close>.
\<close>

definition isspace :: "char \<Rightarrow> bool" where
  "isspace c = (of_char c \<in> {32, 9, 10, 11, 12, 13 :: nat})"

definition isdigit :: "char \<Rightarrow> bool" where
  "isdigit c = (48 \<le> (of_char c :: nat) \<and> (of_char c :: nat) \<le> 57)"

fun digits_value :: "int \<Rightarrow> string \<Rightarrow> int" where
  "digits_value acc [] = acc"
| "digits_value acc (c # cs) =
     (if isdigit c then digits_value (10 * acc + (of_char c - 48)) cs else acc)"

definition decimal_value :: "string \<Rightarrow> int" where
  "decimal_value s =
     (case dropWhile isspace s of
        [] \<Rightarrow> 0
      | c # cs \<Rightarrow>
          if c = CHR ''-'' then - digits_value 0 cs
          else if c = CHR ''+'' then digits_value 0 cs
          else digits_value 0 (c # cs))"

text \<open>
  Two C libraries, which differ on numbers that do not fit \<^verbatim>\<open>int\<close>. Where
  \<^verbatim>\<open>long\<close> has 64 bits and \<^verbatim>\<open>atoi\<close> is \<^verbatim>\<open>(int) strtol(s, NULL, 10)\<close>
  (glibc on LP64), the number is clamped to 64 bits and its low 32 bits are returned.
  Where overflow is reported as \<^verbatim>\<open>INT_MAX\<close> or \<^verbatim>\<open>INT_MIN\<close> (a 32-bit
  \<^verbatim>\<open>long\<close>), the number is clamped to 32 bits; the guards in
  \<^verbatim>\<open>TracerThread\<close> test for this convention.
\<close>

definition atoi_lp64 :: "string \<Rightarrow> c_int" where
  "atoi_lp64 s = word_of_int (max (- (2 ^ 63)) (min (2 ^ 63 - 1) (decimal_value s)))"

definition atoi_saturating :: "string \<Rightarrow> c_int" where
  "atoi_saturating s = word_of_int (max (- (2 ^ 31)) (min (2 ^ 31 - 1) (decimal_value s)))"

text \<open>
  The externals of a platform with 1000 ticks per second, where NSPR's
  \<^verbatim>\<open>PR_MillisecondsToInterval\<close> returns its argument, with the LP64 library, and
  where the products that occur are exact.
\<close>

definition msec_ticks :: externals where
  "msec_ticks = \<lparr>atoi = atoi_lp64, PR_MillisecondsToInterval = (\<lambda>m. m),
                 double_times = (\<lambda>x y. x * y)\<rparr>"

text \<open>
  The same with 100000 ticks per second, the most NSPR allows (it allows 1000 to 100000):
  \<^verbatim>\<open>PR_MillisecondsToInterval\<close> multiplies by 100, in 32 bits.
\<close>

definition fine_ticks :: externals where
  "fine_ticks = \<lparr>atoi = atoi_lp64, PR_MillisecondsToInterval = (\<lambda>m. 100 * m),
                 double_times = (\<lambda>x y. x * y)\<rparr>"

subsection \<open>The log and the world the thread acts on\<close>

text \<open>
  The three lines \<^verbatim>\<open>MOZ_EVENT_TRACE start %llu\<close>,
  \<^verbatim>\<open>MOZ_EVENT_TRACE sample %llu %d\<close> and \<^verbatim>\<open>MOZ_EVENT_TRACE stop %llu\<close>, with
  the numbers they print.
\<close>

datatype trace_line =
  Trace_start nat
| Trace_sample nat int
| Trace_stop nat

fun is_sample :: "trace_line \<Rightarrow> bool" where
  "is_sample (Trace_sample t d) = True"
| "is_sample _ = False"

text \<open>\<^verbatim>\<open>FILE* log\<close>: the standard output or a file opened by path.\<close>

datatype sink = Stdout | File string

record world =
  console :: "trace_line list"
  files :: "string \<rightharpoonup> trace_line list"
  open_files :: "string list"
  sleeps :: "PRIntervalTime list"

text \<open>
  \<^verbatim>\<open>fopen(path, "w")\<close> creates the file or truncates it to length zero; whether it
  succeeds is given by \<open>can_open\<close>.
\<close>

definition fopen_w :: "(string \<Rightarrow> bool) \<Rightarrow> string \<Rightarrow> world \<Rightarrow> sink option \<times> world" where
  "fopen_w can_open path w =
     (if can_open path
      then (Some (File path), w\<lparr>files := (files w)(path \<mapsto> []), open_files := path # open_files w\<rparr>)
      else (None, w))"

definition sink_lines :: "world \<Rightarrow> sink \<Rightarrow> trace_line list" where
  "sink_lines w f =
     (case f of
        Stdout \<Rightarrow> console w
      | File p \<Rightarrow> (case files w p of None \<Rightarrow> [] | Some ls \<Rightarrow> ls))"

definition fprintf :: "sink \<Rightarrow> trace_line \<Rightarrow> world \<Rightarrow> world" where
  "fprintf f l w =
     (case f of
        Stdout \<Rightarrow> w\<lparr>console := console w @ [l]\<rparr>
      | File p \<Rightarrow> w\<lparr>files := (files w)(p \<mapsto> sink_lines w (File p) @ [l])\<rparr>)"

definition fclose :: "sink \<Rightarrow> world \<Rightarrow> world" where
  "fclose f w =
     (case f of
        Stdout \<Rightarrow> w
      | File p \<Rightarrow> w\<lparr>open_files := remove1 p (open_files w)\<rparr>)"

definition PR_Sleep :: "PRIntervalTime \<Rightarrow> world \<Rightarrow> world" where
  "PR_Sleep ticks w = w\<lparr>sleeps := sleeps w @ [ticks]\<rparr>"

subsection \<open>TracerThread: resolving the configuration (lines 94--124)\<close>

record TracerStartClosure =
  mLogTracing :: bool

record config =
  log_sink :: sink
  threshold :: PRIntervalTime
  interval :: PRIntervalTime

text \<open>
  The block that reads \<^verbatim>\<open>MOZ_INSTRUMENT_EVENT_LOOP_THRESHOLD\<close> and the identical one
  for \<^verbatim>\<open>MOZ_INSTRUMENT_EVENT_LOOP_INTERVAL\<close>: \<open>current\<close> is the variable's value
  before the block, the result its value after.
\<close>

definition env_override :: "externals \<Rightarrow> string option \<Rightarrow> PRIntervalTime \<Rightarrow> PRIntervalTime" where
  "env_override X env current =
     (case env of
        None \<Rightarrow> current
      | Some s \<Rightarrow>
          if s \<noteq> [] then
            (let val = atoi X s
             in if val \<noteq> 0 \<and> val \<noteq> INT_MAX \<and> val \<noteq> INT_MIN
                then PR_MillisecondsToInterval X val
                else current)
          else current)"

definition open_log :: "(string \<Rightarrow> bool) \<Rightarrow> string option \<Rightarrow> world \<Rightarrow> sink \<times> world" where
  "open_log can_open envfile w =
     (let (log, w') = (case envfile of None \<Rightarrow> (None, w) | Some path \<Rightarrow> fopen_w can_open path w)
      in (case log of None \<Rightarrow> (Stdout, w') | Some f \<Rightarrow> (f, w')))"

definition resolve_config ::
  "externals \<Rightarrow> (string \<rightharpoonup> string) \<Rightarrow> (string \<Rightarrow> bool) \<Rightarrow> world \<Rightarrow> config \<times> world" where
  "resolve_config X PR_GetEnv can_open w =
     (let threshold0 = PR_MillisecondsToInterval X 20;
          interval0 = PR_MillisecondsToInterval X 10;
          (log, w') = open_log can_open (PR_GetEnv ''MOZ_INSTRUMENT_EVENT_LOOP_OUTPUT'') w;
          threshold1 = env_override X (PR_GetEnv ''MOZ_INSTRUMENT_EVENT_LOOP_THRESHOLD'') threshold0;
          interval1 = env_override X (PR_GetEnv ''MOZ_INSTRUMENT_EVENT_LOOP_INTERVAL'') interval0
      in (\<lparr>log_sink = log, threshold = threshold1, interval = interval1\<rparr>, w'))"

subsection \<open>TracerThread: one pass of the loop (lines 131--159)\<close>

text \<open>
  What one pass observes of its environment: whether \<^verbatim>\<open>FireAndWaitForTracerEvent\<close>
  returned true, and then the time elapsed since \<open>start\<close> (\<open>probe\<close>); the clock read
  by \<^verbatim>\<open>PR_Now\<close> for a sample line; and the two values of the flag \<^verbatim>\<open>sExit\<close>
  that the pass reads, before sleeping and in the loop condition that follows. The flag
  is written by another thread, so its value at each read is an input.
\<close>

record pass =
  probe :: "TimeDuration option"
  now :: PRTime
  exit_before_sleep :: bool
  exit_after :: bool

text \<open>
  Lines 131--155, up to the end of the \<^verbatim>\<open>if (FireAndWaitForTracerEvent())\<close> block:
  the world after it and the value of \<^verbatim>\<open>next_sleep\<close>. \<open>None\<close> is an undefined
  conversion to \<^verbatim>\<open>int\<close>.
\<close>

definition report_sample ::
  "externals \<Rightarrow> TracerStartClosure \<Rightarrow> config \<Rightarrow> pass \<Rightarrow> TimeDuration \<Rightarrow> world \<Rightarrow> world option" where
  "report_sample X threadArgs c p duration w =
     (if mLogTracing threadArgs \<and> ToMilliseconds duration > real (unat (threshold c))
      then (case double_to_int (double_times X (ToSecondsSigDigits duration) 1000) of
              None \<Rightarrow> None
            | Some n \<Rightarrow>
                Some (fprintf (log_sink c) (Trace_sample (msec_since_epoch (now p)) (sint n)) w))
      else Some w)"

definition adjust_sleep :: "PRIntervalTime \<Rightarrow> TimeDuration \<Rightarrow> PRIntervalTime option" where
  "adjust_sleep next_sleep duration =
     (if real (unat next_sleep) > ToMilliseconds duration
      then (case double_to_int (ToMilliseconds duration) of
              None \<Rightarrow> None
            | Some n \<Rightarrow> Some (next_sleep - n))
      else Some 0)"

definition fire_and_measure ::
  "externals \<Rightarrow> TracerStartClosure \<Rightarrow> config \<Rightarrow> pass \<Rightarrow> world \<Rightarrow> (world \<times> PRIntervalTime) option" where
  "fire_and_measure X threadArgs c p w =
     (let next_sleep = interval c
      in case probe p of
           None \<Rightarrow> Some (w, next_sleep)
         | Some duration \<Rightarrow>
             (case report_sample X threadArgs c p duration w of
                None \<Rightarrow> None
              | Some w' \<Rightarrow>
                  (case adjust_sleep next_sleep duration of
                     None \<Rightarrow> None
                   | Some next_sleep' \<Rightarrow> Some (w', next_sleep'))))"

text \<open>Lines 157--159.\<close>

definition sleep_unless_exit :: "PRIntervalTime \<Rightarrow> bool \<Rightarrow> world \<Rightarrow> world" where
  "sleep_unless_exit next_sleep sExit w =
     (if next_sleep \<noteq> 0 \<and> \<not> sExit then PR_Sleep next_sleep w else w)"

definition loop_body ::
  "externals \<Rightarrow> TracerStartClosure \<Rightarrow> config \<Rightarrow> pass \<Rightarrow> world \<Rightarrow> world option" where
  "loop_body X threadArgs c p w =
     (case fire_and_measure X threadArgs c p w of
        None \<Rightarrow> None
      | Some (w', next_sleep) \<Rightarrow> Some (sleep_unless_exit next_sleep (exit_before_sleep p) w'))"

subsection \<open>TracerThread: the loop and the whole thread\<close>

text \<open>
  A run of the thread either returns, or is still in its loop when the observed passes
  end, or has performed an undefined conversion.
\<close>

datatype 'a outcome = Returned 'a | Running | Undefined

text \<open>
  \<^verbatim>\<open>while (!sExit) { ... }\<close>: \<open>sExit\<close> is the flag as the loop condition reads it
  now; each pass supplies the value for the next test.
\<close>

fun tracer_loop ::
  "externals \<Rightarrow> TracerStartClosure \<Rightarrow> config \<Rightarrow> bool \<Rightarrow> pass list \<Rightarrow> world \<Rightarrow> world outcome" where
  "tracer_loop X threadArgs c True ps w = Returned w"
| "tracer_loop X threadArgs c False [] w = Running"
| "tracer_loop X threadArgs c False (p # ps) w =
     (case loop_body X threadArgs c p w of
        None \<Rightarrow> Undefined
      | Some w' \<Rightarrow> tracer_loop X threadArgs c (exit_after p) ps w')"

text \<open>
  The environment of one run of the thread: the process environment, which paths
  \<^verbatim>\<open>fopen\<close> can open, the clock at the start and stop lines, the flag as first read
  by the loop condition, and the passes. The thread clears \<^verbatim>\<open>sExit\<close> itself (line
  101) before any of these reads. The calls \<^verbatim>\<open>PR_SetCurrentThreadName\<close> and
  \<^verbatim>\<open>profiler_responsiveness\<close> and the final \<^verbatim>\<open>delete threadArgs\<close> act on
  nothing the log, the files or the pacing depend on and are left out.
\<close>

record run =
  PR_GetEnv :: "string \<rightharpoonup> string"
  can_open :: "string \<Rightarrow> bool"
  now_at_start :: PRTime
  exit_at_entry :: bool
  passes :: "pass list"
  now_at_stop :: PRTime

definition log_start :: "TracerStartClosure \<Rightarrow> config \<Rightarrow> PRTime \<Rightarrow> world \<Rightarrow> world" where
  "log_start threadArgs c t w =
     (if mLogTracing threadArgs
      then fprintf (log_sink c) (Trace_start (msec_since_epoch t)) w else w)"

definition log_stop :: "TracerStartClosure \<Rightarrow> config \<Rightarrow> PRTime \<Rightarrow> world \<Rightarrow> world" where
  "log_stop threadArgs c t w =
     (let w' = (if mLogTracing threadArgs
                then fprintf (log_sink c) (Trace_stop (msec_since_epoch t)) w else w)
      in if log_sink c \<noteq> Stdout then fclose (log_sink c) w' else w')"

definition TracerThread :: "externals \<Rightarrow> TracerStartClosure \<Rightarrow> run \<Rightarrow> world \<Rightarrow> world outcome" where
  "TracerThread X threadArgs r w =
     (let (c, w1) = resolve_config X (PR_GetEnv r) (can_open r) w;
          w2 = log_start threadArgs c (now_at_start r) w1
      in case tracer_loop X threadArgs c (exit_at_entry r) (passes r) w2 of
           Returned w3 \<Rightarrow> Returned (log_stop threadArgs c (now_at_stop r) w3)
         | Running \<Rightarrow> Running
         | Undefined \<Rightarrow> Undefined)"

subsection \<open>InitEventTracing and ShutdownEventTracing (lines 176--217)\<close>

text \<open>
  The globals \<^verbatim>\<open>sTracerThread\<close> (\<open>None\<close> is \<^verbatim>\<open>NULL\<close>) and \<^verbatim>\<open>sExit\<close>,
  together with what the process holds outside this file: the threads created by
  \<^verbatim>\<open>PR_CreateThread\<close> and not yet joined, each with the closure it was given, and
  whether the widget backend holds its tracing resources.
\<close>

type_synonym PRThread = nat

record process =
  sTracerThread :: "PRThread option"
  sExit :: bool
  threads :: "(PRThread \<times> TracerStartClosure) list"
  widget_tracing :: bool

text \<open>
  Modelled from the spec: \<^verbatim>\<open>InitWidgetTracing\<close> and \<^verbatim>\<open>CleanUpWidgetTracing\<close>
  belong to the widget backend and are not in this file. The first lets the collaborator
  initialize its side of the round-trip mechanism and may fail (\<open>ok\<close> is its result);
  the second lets the collaborator release its resources.
\<close>

definition InitWidgetTracing :: "bool \<Rightarrow> process \<Rightarrow> bool \<times> process" where
  "InitWidgetTracing ok s = (if ok then (True, s\<lparr>widget_tracing := True\<rparr>) else (False, s))"

definition CleanUpWidgetTracing :: "process \<Rightarrow> process" where
  "CleanUpWidgetTracing s = s\<lparr>widget_tracing := False\<rparr>"

text \<open>
  \<^verbatim>\<open>PR_CreateThread\<close> returns the new thread or \<^verbatim>\<open>NULL\<close> (\<open>created\<close>);
  \<^verbatim>\<open>PR_JoinThread\<close> returns once the thread has ended. The two functions below are
  called from one thread, one call after the other; the assertion at line 191 repeats the
  test of line 178 and cannot fail then.
\<close>

definition PR_CreateThread ::
  "PRThread option \<Rightarrow> TracerStartClosure \<Rightarrow> process \<Rightarrow> PRThread option \<times> process" where
  "PR_CreateThread created args s =
     (case created of
        None \<Rightarrow> (None, s)
      | Some t \<Rightarrow> (Some t, s\<lparr>threads := threads s @ [(t, args)]\<rparr>))"

definition PR_JoinThread :: "PRThread \<Rightarrow> process \<Rightarrow> process" where
  "PR_JoinThread t s = s\<lparr>threads := filter (\<lambda>(t', args). t' \<noteq> t) (threads s)\<rparr>"

definition InitEventTracing :: "bool \<Rightarrow> bool \<Rightarrow> PRThread option \<Rightarrow> process \<Rightarrow> bool \<times> process" where
  "InitEventTracing aLog widget_ok created s =
     (if sTracerThread s \<noteq> None then (True, s)
      else (case InitWidgetTracing widget_ok s of
              (False, s1) \<Rightarrow> (False, s1)
            | (True, s1) \<Rightarrow>
                (let args = \<lparr>mLogTracing = aLog\<rparr>;
                     (t, s2) = PR_CreateThread created args s1;
                     s3 = s2\<lparr>sTracerThread := t\<rparr>
                 in (sTracerThread s3 \<noteq> None, s3))))"

text \<open>
  \<^verbatim>\<open>SignalTracerThread\<close> wakes a thread that waits inside the probe and changes
  nothing of the state recorded here.
\<close>

definition ShutdownEventTracing :: "process \<Rightarrow> process" where
  "ShutdownEventTracing s =
     (case sTracerThread s of
        None \<Rightarrow> s
      | Some t \<Rightarrow>
          (let s1 = s\<lparr>sExit := True\<rparr>;
               s2 = PR_JoinThread t s1;
               s3 = s2\<lparr>sTracerThread := None\<rparr>
           in CleanUpWidgetTracing s3))"

text \<open>The calls the embedding application makes, in any order.\<close>

datatype call = Start bool bool "PRThread option" | Stop

fun do_call :: "call \<Rightarrow> process \<Rightarrow> process" where
  "do_call (Start aLog widget_ok created) s = snd (InitEventTracing aLog widget_ok created s)"
| "do_call Stop s = ShutdownEventTracing s"

definition process_start :: process where
  "process_start = \<lparr>sTracerThread = None, sExit = False, threads = [], widget_tracing = False\<rparr>"

definition after_calls :: "call list \<Rightarrow> process" where
  "after_calls cs = foldl (\<lambda>s c. do_call c s) process_start cs"

subsection \<open>Auxiliary notions used in the statements\<close>

text \<open>
  A pass is convertible when both conversions to \<^verbatim>\<open>int\<close> that it may perform are
  defined.
\<close>

definition convertible :: "externals \<Rightarrow> pass \<Rightarrow> bool" where
  "convertible X p =
     (case probe p of
        None \<Rightarrow> True
      | Some d \<Rightarrow> double_to_int (ToMilliseconds d) \<noteq> None
                \<and> double_to_int (double_times X (ToSecondsSigDigits d) 1000) \<noteq> None)"

text \<open>
  An \<^verbatim>\<open>atoi\<close> conforms when it returns the number the string denotes whenever
  that number fits \<^verbatim>\<open>int\<close>.
\<close>

definition atoi_conforming :: "(string \<Rightarrow> c_int) \<Rightarrow> bool" where
  "atoi_conforming f =
     (\<forall>s. - (2 ^ 31) \<le> decimal_value s \<and> decimal_value s < 2 ^ 31
          \<longrightarrow> f s = word_of_int (decimal_value s))"

text \<open>
  The resolution of one override as a rule on the number the string denotes: the number
  is taken when it is not zero and lies strictly between \<^verbatim>\<open>INT_MIN\<close> and
  \<^verbatim>\<open>INT_MAX\<close>; the default (in milliseconds) is kept when the variable is absent
  and when the number is zero, \<^verbatim>\<open>INT_MIN\<close> or \<^verbatim>\<open>INT_MAX\<close>. The rule is
  silent (\<open>None\<close>) on a number that does not fit \<^verbatim>\<open>int\<close>.
\<close>

definition override_rule ::
  "externals \<Rightarrow> 32 word \<Rightarrow> string option \<Rightarrow> PRIntervalTime option" where
  "override_rule X dflt e =
     (case e of
        None \<Rightarrow> Some (PR_MillisecondsToInterval X dflt)
      | Some s \<Rightarrow>
          if decimal_value s < - (2 ^ 31) \<or> 2 ^ 31 \<le> decimal_value s then None
          else if decimal_value s \<noteq> 0 \<and> - (2 ^ 31) < decimal_value s
                  \<and> decimal_value s < 2 ^ 31 - 1
          then Some (PR_MillisecondsToInterval X (word_of_int (decimal_value s)))
          else Some (PR_MillisecondsToInterval X dflt))"

text \<open>
  The number of milliseconds an override block leaves configured: the value it accepts,
  or else the default \<open>dflt\<close>.
\<close>

definition configured_msec :: "externals \<Rightarrow> 32 word \<Rightarrow> string option \<Rightarrow> 32 word" where
  "configured_msec X dflt e =
     (case e of
        None \<Rightarrow> dflt
      | Some s \<Rightarrow>
          if s \<noteq> [] \<and> atoi X s \<noteq> 0 \<and> atoi X s \<noteq> INT_MAX \<and> atoi X s \<noteq> INT_MIN
          then atoi X s else dflt)"

text \<open>The handle \<^verbatim>\<open>sTracerThread\<close> names the one live tracer thread, if any.\<close>

definition single_tracer :: "process \<Rightarrow> bool" where
  "single_tracer s =
     (map fst (threads s) = (case sTracerThread s of None \<Rightarrow> [] | Some t \<Rightarrow> [t]))"

subsection \<open>Concrete runs\<close>

text \<open>
  A probe of 3.90625 ms and one of 46.875 ms (both exact in binary), a pass cut short by
  shutdown, and runs built from them, on a platform with millisecond ticks and no
  overrides: threshold 20, interval 10, output to the standard output.
\<close>

definition quiet_world :: world where
  "quiet_world = \<lparr>console = [], files = Map.empty, open_files = [], sleeps = []\<rparr>"

definition logging :: TracerStartClosure where
  "logging = \<lparr>mLogTracing = True\<rparr>"

definition silent :: TracerStartClosure where
  "silent = \<lparr>mLogTracing = False\<rparr>"

definition default_config :: config where
  "default_config = \<lparr>log_sink = Stdout, threshold = 20, interval = 10\<rparr>"

definition fast_probe :: TimeDuration where
  "fast_probe = \<lparr>ToMilliseconds = 3.90625, ToSecondsSigDigits = 0.00390625\<rparr>"

definition slow_probe :: TimeDuration where
  "slow_probe = \<lparr>ToMilliseconds = 46.875, ToSecondsSigDigits = 0.046875\<rparr>"

definition fast_pass :: pass where
  "fast_pass = \<lparr>probe = Some fast_probe, now = 1000000, exit_before_sleep = False,
     exit_after = False\<rparr>"

definition slow_pass :: pass where
  "slow_pass = \<lparr>probe = Some slow_probe, now = 2000000, exit_before_sleep = False,
     exit_after = False\<rparr>"

definition interrupted_pass :: pass where
  "interrupted_pass = \<lparr>probe = None, now = 3000000, exit_before_sleep = True,
     exit_after = True\<rparr>"

definition no_files :: "string \<Rightarrow> bool" where
  "no_files path = False"

definition any_file :: "string \<Rightarrow> bool" where
  "any_file path = True"

definition example_run :: run where
  "example_run = \<lparr>PR_GetEnv = Map.empty, can_open = no_files, now_at_start = 500000,
     exit_at_entry = False, passes = [fast_pass, slow_pass, interrupted_pass],
     now_at_stop = 4000000\<rparr>"

text \<open>
  The same three passes with the output redirected to a file that already holds an
  earlier log.
\<close>

definition file_run :: run where
  "file_run = \<lparr>PR_GetEnv = [''MOZ_INSTRUMENT_EVENT_LOOP_OUTPUT'' \<mapsto> ''trace.log''],
     can_open = any_file, now_at_start = 500000, exit_at_entry = False,
     passes = [fast_pass, slow_pass, interrupted_pass], now_at_stop = 4000000\<rparr>"

text \<open>The configuration the defaults resolve to at 100000 ticks per second.\<close>

definition fine_config :: config where
  "fine_config = \<lparr>log_sink = Stdout, threshold = 2000, interval = 1000\<rparr>"

definition overflow_env :: "string \<rightharpoonup> string" where
  "overflow_env = [''MOZ_INSTRUMENT_EVENT_LOOP_THRESHOLD'' \<mapsto> ''9999999999'']"

definition old_log_world :: world where
  "old_log_world = \<lparr>console = [], files = [''trace.log'' \<mapsto> [Trace_start 1, Trace_stop 2]],
     open_files = [], sleeps = []\<rparr>"

definition int_max_env :: "string \<rightharpoonup> string" where
  "int_max_env = [''MOZ_INSTRUMENT_EVENT_LOOP_THRESHOLD'' \<mapsto> ''2147483647'']"

definition tuned_env :: "string \<rightharpoonup> string" where
  "tuned_env = [''MOZ_INSTRUMENT_EVENT_LOOP_THRESHOLD'' \<mapsto> ''250'',
                ''MOZ_INSTRUMENT_EVENT_LOOP_INTERVAL'' \<mapsto> ''soon'']"

definition negative_env :: "string \<rightharpoonup> string" where
  "negative_env = [''MOZ_INSTRUMENT_EVENT_LOOP_THRESHOLD'' \<mapsto> ''-5'',
                   ''MOZ_INSTRUMENT_EVENT_LOOP_INTERVAL'' \<mapsto> ''-5'']"

definition two_starts :: "call list" where
  "two_starts = [Start True True (Some 1), Start False True (Some 2)]"

section \<open>Properties\<close>

subsection \<open>Basic facts about the sink and the conversions\<close>

lemma sink_lines_fprintf: "sink_lines (fprintf f l w) f = sink_lines w f @ [l]"
  by (cases f) (simp_all add: sink_lines_def fprintf_def)

lemma sink_lines_PR_Sleep: "sink_lines (PR_Sleep t w) f = sink_lines w f"
  by (cases f) (simp_all add: sink_lines_def PR_Sleep_def)

lemma sink_lines_sleep_unless_exit: "sink_lines (sleep_unless_exit n e w) f = sink_lines w f"
  by (simp add: sleep_unless_exit_def sink_lines_PR_Sleep)

lemma sink_lines_fclose: "sink_lines (fclose g w) f = sink_lines w f"
  by (cases g; cases f) (simp_all add: sink_lines_def fclose_def)

lemma truncate_double_bounds:
  "\<bar>real_of_int (truncate_double x)\<bar> \<le> \<bar>x\<bar> \<and> \<bar>x - real_of_int (truncate_double x)\<bar> < 1"
  unfolding truncate_double_def by (cases "0 \<le> x") (simp_all, linarith+)

lemma double_to_int_sint:
  assumes "double_to_int x = Some n"
  shows "sint n = truncate_double x"
proof -
  from assms have r: "- (2 ^ 31) \<le> truncate_double x" "truncate_double x < 2 ^ 31"
    and n: "n = word_of_int (truncate_double x)"
    by (auto simp: double_to_int_def Let_def split: if_splits)
  from r show ?thesis unfolding n
    by (simp add: sint_sbintrunc' signed_take_bit_int_eq_self)
qed

lemma double_to_int_nonneg:
  assumes "double_to_int x = Some n" and "0 \<le> x"
  shows "uint n = \<lfloor>x\<rfloor>"
proof -
  from assms have "\<lfloor>x\<rfloor> < 2 ^ 31" and n: "n = word_of_int \<lfloor>x\<rfloor>"
    by (auto simp: double_to_int_def Let_def truncate_double_def split: if_splits)
  moreover from \<open>0 \<le> x\<close> have "0 \<le> \<lfloor>x\<rfloor>" by simp
  ultimately show ?thesis
    by (simp add: uint_word_of_int take_bit_int_eq_self)
qed

subsection \<open>One pass of the loop\<close>

lemma report_sample_cases:
  assumes "report_sample X a c p d w = Some w'"
  shows "if mLogTracing a \<and> ToMilliseconds d > real (unat (threshold c))
         then \<exists>n. double_to_int (double_times X (ToSecondsSigDigits d) 1000) = Some n \<and>
                  w' = fprintf (log_sink c) (Trace_sample (msec_since_epoch (now p)) (sint n)) w
         else w' = w"
  using assms by (auto simp: report_sample_def split: option.splits if_splits)

lemma fire_and_measure_Some:
  assumes "probe p = Some d" and "fire_and_measure X a c p w = Some (w', ns)"
  shows "report_sample X a c p d w = Some w' \<and> adjust_sleep (interval c) d = Some ns"
  using assms by (auto simp: fire_and_measure_def split: option.splits)

text \<open>A pass whose conversions are defined yields a result.\<close>

lemma fire_and_measure_defined:
  assumes "convertible X p"
  shows "\<exists>w' ns. fire_and_measure X a c p w = Some (w', ns)"
proof (cases "probe p")
  case None
  then show ?thesis by (simp add: fire_and_measure_def)
next
  case (Some d)
  with assms obtain m n where m: "double_to_int (ToMilliseconds d) = Some m"
    and n: "double_to_int (double_times X (ToSecondsSigDigits d) 1000) = Some n"
    by (auto simp: convertible_def)
  from n have "\<exists>w1. report_sample X a c p d w = Some w1"
    by (simp add: report_sample_def)
  moreover from m have "\<exists>ns. adjust_sleep (interval c) d = Some ns"
    by (simp add: adjust_sleep_def)
  ultimately show ?thesis by (auto simp: fire_and_measure_def Some)
qed

lemma loop_body_defined:
  assumes "convertible X p"
  shows "\<exists>w'. loop_body X a c p w = Some w'"
  using fire_and_measure_defined [OF assms, of a c w] by (auto simp: loop_body_def)

subsection \<open>The concrete passes, evaluated\<close>

lemma msec_since_epoch_examples:
  "msec_since_epoch 1000000 = 1000" "msec_since_epoch 2000000 = 2000"
  "msec_since_epoch 500000 = 500" "msec_since_epoch 4000000 = 4000"
  by (simp_all add: msec_since_epoch_def PR_USEC_PER_MSEC_def signed_divide_int_def)

lemma resolve_config_default:
  "resolve_config msec_ticks Map.empty no_files w = (default_config, w)"
  by (simp add: resolve_config_def open_log_def env_override_def msec_ticks_def default_config_def)

lemma fast_pass_measure:
  "fire_and_measure msec_ticks a default_config fast_pass w = Some (w, 7)"
  by (simp add: fire_and_measure_def report_sample_def adjust_sleep_def double_to_int_def
      truncate_double_def fast_pass_def fast_probe_def default_config_def)

lemma slow_pass_measure:
  "fire_and_measure msec_ticks logging default_config slow_pass w
     = Some (fprintf Stdout (Trace_sample 2000 46) w, 0)"
  by (simp add: fire_and_measure_def report_sample_def adjust_sleep_def double_to_int_def
      truncate_double_def slow_pass_def slow_probe_def default_config_def logging_def
      msec_ticks_def msec_since_epoch_examples)

lemma fast_pass_body:
  "loop_body msec_ticks a default_config fast_pass w = Some (PR_Sleep 7 w)"
proof -
  have "exit_before_sleep fast_pass = False" by (simp add: fast_pass_def)
  then show ?thesis
    by (simp add: loop_body_def fast_pass_measure sleep_unless_exit_def)
qed

lemma slow_pass_body:
  "loop_body msec_ticks logging default_config slow_pass w
     = Some (fprintf Stdout (Trace_sample 2000 46) w)"
  by (simp add: loop_body_def slow_pass_measure sleep_unless_exit_def)

lemma interrupted_pass_body:
  "loop_body X a default_config interrupted_pass w = Some w"
  by (simp add: loop_body_def fire_and_measure_def interrupted_pass_def default_config_def
      sleep_unless_exit_def)

lemma example_passes_exit:
  "exit_after fast_pass = False" "exit_after slow_pass = False"
  "exit_after interrupted_pass = True"
  by (simp_all add: fast_pass_def slow_pass_def interrupted_pass_def)

subsection \<open>Reporting and pacing\<close>

text \<open>
  What the code compares: in a pass whose probe completes, a sample line is appended
  exactly when logging is enabled and the millisecond count of the duration is greater
  than the number held in \<^verbatim>\<open>threshold\<close>, which is a count of ticks.
\<close>

lemma sample_written_iff_compared:
  assumes "probe p = Some duration"
    and "fire_and_measure X threadArgs c p w = Some (w', next_sleep)"
  shows "(\<exists>l. is_sample l \<and> sink_lines w' (log_sink c) = sink_lines w (log_sink c) @ [l])
         \<longleftrightarrow> (mLogTracing threadArgs \<and> ToMilliseconds duration > real (unat (threshold c)))"
proof -
  from assms have r: "report_sample X threadArgs c p duration w = Some w'"
    by (simp add: fire_and_measure_Some)
  show ?thesis
  proof (cases "mLogTracing threadArgs \<and> ToMilliseconds duration > real (unat (threshold c))")
    case True
    with report_sample_cases [OF r] obtain n :: c_int where
      "w' = fprintf (log_sink c) (Trace_sample (msec_since_epoch (now p)) (sint n)) w"
      by auto
    then have "sink_lines w' (log_sink c)
        = sink_lines w (log_sink c) @ [Trace_sample (msec_since_epoch (now p)) (sint n)]"
      by (simp add: sink_lines_fprintf)
    with True show ?thesis by auto
  next
    case False
    with report_sample_cases [OF r] have "w' = w" by auto
    with False show ?thesis by auto
  qed
qed

text \<open>
  Likewise the next sleep is the number held in \<^verbatim>\<open>interval\<close>, a count of ticks,
  less the whole milliseconds of the duration.
\<close>

lemma next_sleep_ticks:
  assumes "probe p = Some duration"
    and "fire_and_measure X threadArgs c p w = Some (w', next_sleep)"
    and "0 \<le> ToMilliseconds duration"
  shows "int (unat next_sleep) = max 0 (int (unat (interval c)) - \<lfloor>ToMilliseconds duration\<rfloor>)"
proof -
  let ?d = "ToMilliseconds duration"
  from assms have a: "adjust_sleep (interval c) duration = Some next_sleep"
    by (simp add: fire_and_measure_Some)
  show ?thesis
  proof (cases "real (unat (interval c)) > ?d")
    case True
    with a obtain n where n: "double_to_int ?d = Some n" and ns: "next_sleep = interval c - n"
      by (auto simp: adjust_sleep_def split: option.splits)
    from double_to_int_nonneg [OF n assms(3)] have un: "uint n = \<lfloor>?d\<rfloor>" .
    from True have less: "\<lfloor>?d\<rfloor> < int (unat (interval c))"
      by (simp add: floor_less_iff)
    with un have "uint n \<le> uint (interval c)" by simp
    then have "n \<le> interval c" by (simp add: word_le_def)
    then have "uint (interval c - n) = uint (interval c) - uint n"
      by (simp add: uint_minus_simple_alt)
    with un ns less show ?thesis by simp
  next
    case False
    with a have "next_sleep = 0" by (simp add: adjust_sleep_def)
    moreover from False have "int (unat (interval c)) \<le> \<lfloor>?d\<rfloor>"
      by (simp add: le_floor_iff not_less)
    ultimately show ?thesis by simp
  qed
qed

lemma env_override_configured:
  "env_override X e (PR_MillisecondsToInterval X dflt)
     = PR_MillisecondsToInterval X (configured_msec X dflt e)"
  by (cases e) (auto simp: env_override_def configured_msec_def Let_def)

lemma resolve_config_fine:
  "resolve_config fine_ticks Map.empty no_files w = (fine_config, w)"
  by (simp add: resolve_config_def open_log_def env_override_def fine_ticks_def fine_config_def)

lemma slow_pass_fine:
  "fire_and_measure fine_ticks logging fine_config slow_pass w = Some (w, 954)"
  by (simp add: fire_and_measure_def report_sample_def adjust_sleep_def double_to_int_def
      truncate_double_def slow_pass_def slow_probe_def fine_config_def)

text \<open>
  Claim C1 states that a sample line is written if and only if logging is enabled and the
  measured duration exceeds the configured threshold. With 100000 ticks per second the
  default threshold of 20 ms is held as 2000 ticks, and the code compares the millisecond
  count of the duration with that number: a probe of 46.875 ms, with logging enabled,
  leaves the sink as it was.
\<close>

theorem threshold_in_ticks_misses_sample:
  "resolve_config fine_ticks Map.empty no_files quiet_world = (fine_config, quiet_world)
   \<and> threshold fine_config = PR_MillisecondsToInterval fine_ticks 20
   \<and> probe slow_pass = Some slow_probe
   \<and> mLogTracing logging
   \<and> ToMilliseconds slow_probe > 20
   \<and> fire_and_measure fine_ticks logging fine_config slow_pass quiet_world
       = Some (quiet_world, 954)
   \<and> sink_lines quiet_world (log_sink fine_config) = []"
  by (simp add: resolve_config_fine slow_pass_fine)
    (simp add: fine_config_def fine_ticks_def slow_pass_def slow_probe_def logging_def
      sink_lines_def quiet_world_def)

text \<open>
  Claim C2, amended. Where one tick is one millisecond, in a pass whose probe completes
  with a measured duration \<open>d \<ge> 0\<close>, the sleep computed for the next pass is
  \<open>max 0 (i - \<lfloor>d\<rfloor>)\<close> for the configured interval of \<open>i\<close> milliseconds: the
  duration is truncated to whole milliseconds before it is subtracted.
\<close>

theorem next_sleep_floor:
  assumes "PR_MillisecondsToInterval X = (\<lambda>m. m)"
    and "resolve_config X env ok w0 = (c, w1)"
    and "probe p = Some duration"
    and "fire_and_measure X threadArgs c p w = Some (w', next_sleep)"
    and "0 \<le> ToMilliseconds duration"
  shows "int (unat next_sleep)
         = max 0 (int (unat (configured_msec X 10 (env ''MOZ_INSTRUMENT_EVENT_LOOP_INTERVAL'')))
                  - \<lfloor>ToMilliseconds duration\<rfloor>)"
proof -
  have "interval c = interval (fst (resolve_config X env ok w0))"
    by (simp add: assms(2))
  also have "\<dots> = PR_MillisecondsToInterval X
                    (configured_msec X 10 (env ''MOZ_INSTRUMENT_EVENT_LOOP_INTERVAL''))"
    by (simp add: resolve_config_def Let_def env_override_configured split: prod.splits)
  finally have "interval c = configured_msec X 10 (env ''MOZ_INSTRUMENT_EVENT_LOOP_INTERVAL'')"
    by (simp add: assms(1))
  with next_sleep_ticks [OF assms(3,4,5)] show ?thesis by simp
qed

text \<open>The 3.90625 ms probe with the interval of 10: the next sleep is 10 - 3 = 7.\<close>

theorem next_sleep_floor_witness:
  "PR_MillisecondsToInterval msec_ticks = (\<lambda>m. m)
   \<and> resolve_config msec_ticks Map.empty no_files quiet_world = (default_config, quiet_world)
   \<and> probe fast_pass = Some fast_probe
   \<and> fire_and_measure msec_ticks logging default_config fast_pass quiet_world
       = Some (quiet_world, 7)
   \<and> 0 \<le> ToMilliseconds fast_probe
   \<and> int (unat (7 :: PRIntervalTime)) = 7
   \<and> max 0 (int (unat (configured_msec msec_ticks 10
                         (Map.empty ''MOZ_INSTRUMENT_EVENT_LOOP_INTERVAL'')))
            - \<lfloor>ToMilliseconds fast_probe\<rfloor>) = 7"
proof -
  have h0: "PR_MillisecondsToInterval msec_ticks = (\<lambda>m. m)"
    by (simp add: msec_ticks_def)
  have hc: "resolve_config msec_ticks Map.empty no_files quiet_world
      = (default_config, quiet_world)"
    by (rule resolve_config_default)
  have h1: "probe fast_pass = Some fast_probe"
    by (simp add: fast_pass_def)
  have h2: "fire_and_measure msec_ticks logging default_config fast_pass quiet_world
      = Some (quiet_world, 7)"
    by (rule fast_pass_measure)
  have h3: "0 \<le> ToMilliseconds fast_probe"
    by (simp add: fast_probe_def)
  have "int (unat (7 :: PRIntervalTime)) = 7" by simp
  with next_sleep_floor [OF h0 hc h1 h2 h3] h0 hc h1 h2 h3 show ?thesis by simp
qed

text \<open>
  The claim as first stated, next sleep = \<open>max 0 (i - d)\<close>, fails on the same pass: the
  sleep is 7 ticks, while 10 - 3.90625 = 6.09375.
\<close>

theorem next_sleep_exact_counterexample:
  "probe fast_pass = Some fast_probe
   \<and> fire_and_measure msec_ticks logging default_config fast_pass quiet_world
       = Some (quiet_world, 7)
   \<and> real (unat (7 :: PRIntervalTime))
       \<noteq> max 0 (real (unat (interval default_config)) - ToMilliseconds fast_probe)"
  by (simp add: fast_pass_measure) (simp add: fast_pass_def fast_probe_def default_config_def)

text \<open>
  Claim C8. In a pass whose probe is interrupted, no line is written, the next sleep stays
  the full configured interval, and the pass goes on to the exit check: it sleeps only
  if the interval is not zero and the flag is not set, and the loop then tests the flag.
\<close>

theorem interrupted_probe:
  assumes "probe p = None"
  shows "fire_and_measure X threadArgs c p w = Some (w, interval c)
       \<and> loop_body X threadArgs c p w
           = Some (sleep_unless_exit (interval c) (exit_before_sleep p) w)
       \<and> sink_lines (sleep_unless_exit (interval c) (exit_before_sleep p) w) f = sink_lines w f
       \<and> tracer_loop X threadArgs c False (p # ps) w
           = tracer_loop X threadArgs c (exit_after p) ps
               (sleep_unless_exit (interval c) (exit_before_sleep p) w)"
  using assms
  by (simp add: fire_and_measure_def loop_body_def sink_lines_sleep_unless_exit)

text \<open>
  The pass cut short by shutdown, as the last pass of a logging thread: nothing is
  written, the next sleep is the interval of 10, and the loop returns.
\<close>

theorem interrupted_probe_witness:
  "probe interrupted_pass = None
   \<and> fire_and_measure msec_ticks logging default_config interrupted_pass quiet_world
       = Some (quiet_world, 10)
   \<and> loop_body msec_ticks logging default_config interrupted_pass quiet_world = Some quiet_world
   \<and> tracer_loop msec_ticks logging default_config False [interrupted_pass] quiet_world
       = Returned quiet_world"
proof -
  have h: "probe interrupted_pass = None"
    by (simp add: interrupted_pass_def)
  have e: "exit_before_sleep interrupted_pass = True" "exit_after interrupted_pass = True"
    "interval default_config = 10"
    by (simp_all add: interrupted_pass_def default_config_def)
  from interrupted_probe [OF h, of msec_ticks logging default_config quiet_world Stdout "[]"] h
  show ?thesis
    by (simp add: e sleep_unless_exit_def)
qed

text \<open>
  Claim C9, amended. Every sample line reports the duration as a whole number of
  milliseconds obtained by truncating towards zero the value
  \<^verbatim>\<open>duration.ToSecondsSigDigits() * 1000\<close>: the number written is no larger in
  magnitude than that value and differs from it by less than one.
\<close>

theorem sample_reports_truncation:
  assumes "probe p = Some duration"
    and "fire_and_measure X threadArgs c p w = Some (w', next_sleep)"
    and "mLogTracing threadArgs"
    and "ToMilliseconds duration > real (unat (threshold c))"
  shows "\<exists>n. sink_lines w' (log_sink c)
                = sink_lines w (log_sink c) @ [Trace_sample (msec_since_epoch (now p)) n]
             \<and> \<bar>real_of_int n\<bar> \<le> \<bar>double_times X (ToSecondsSigDigits duration) 1000\<bar>
             \<and> \<bar>double_times X (ToSecondsSigDigits duration) 1000 - real_of_int n\<bar> < 1"
proof -
  let ?x = "double_times X (ToSecondsSigDigits duration) 1000"
  from assms(1,2) have r: "report_sample X threadArgs c p duration w = Some w'"
    by (simp add: fire_and_measure_Some)
  with assms(3,4) obtain n :: c_int where n: "double_to_int ?x = Some n"
    and w': "w' = fprintf (log_sink c) (Trace_sample (msec_since_epoch (now p)) (sint n)) w"
    using report_sample_cases [OF r] by auto
  have "sink_lines w' (log_sink c)
      = sink_lines w (log_sink c) @ [Trace_sample (msec_since_epoch (now p)) (sint n)]"
    by (simp add: w' sink_lines_fprintf)
  moreover have "sint n = truncate_double ?x"
    by (rule double_to_int_sint [OF n])
  ultimately show ?thesis
    using truncate_double_bounds [of ?x] by auto
qed

text \<open>The 46.875 ms probe: a sample line is written, and it reports a whole number.\<close>

theorem sample_reports_truncation_witness:
  "probe slow_pass = Some slow_probe
   \<and> fire_and_measure msec_ticks logging default_config slow_pass quiet_world
       = Some (fprintf Stdout (Trace_sample 2000 46) quiet_world, 0)
   \<and> mLogTracing logging
   \<and> ToMilliseconds slow_probe > real (unat (threshold default_config))
   \<and> (\<exists>n. sink_lines (fprintf Stdout (Trace_sample 2000 46) quiet_world) (log_sink default_config)
             = sink_lines quiet_world (log_sink default_config)
               @ [Trace_sample (msec_since_epoch (now slow_pass)) n]
          \<and> \<bar>real_of_int n\<bar> \<le> \<bar>double_times msec_ticks (ToSecondsSigDigits slow_probe) 1000\<bar>
          \<and> \<bar>double_times msec_ticks (ToSecondsSigDigits slow_probe) 1000 - real_of_int n\<bar> < 1)"
proof -
  have h1: "probe slow_pass = Some slow_probe"
    by (simp add: slow_pass_def)
  have h2: "fire_and_measure msec_ticks logging default_config slow_pass quiet_world
      = Some (fprintf Stdout (Trace_sample 2000 46) quiet_world, 0)"
    by (rule slow_pass_measure)
  have h3: "mLogTracing logging"
    by (simp add: logging_def)
  have h4: "ToMilliseconds slow_probe > real (unat (threshold default_config))"
    by (simp add: slow_probe_def default_config_def)
  from sample_reports_truncation [OF h1 h2 h3 h4] h1 h2 h3 h4 show ?thesis
    by blast
qed

text \<open>
  The claim as first stated, with the number obtained by rounding, fails on the same
  probe: the line reports 46, while 46.875 rounds to 47.
\<close>

theorem sample_rounding_counterexample:
  "probe slow_pass = Some slow_probe
   \<and> fire_and_measure msec_ticks logging default_config slow_pass quiet_world
       = Some (fprintf Stdout (Trace_sample 2000 46) quiet_world, 0)
   \<and> sink_lines (fprintf Stdout (Trace_sample 2000 46) quiet_world) Stdout = [Trace_sample 2000 46]
   \<and> round (ToMilliseconds slow_probe) = 47
   \<and> round (double_times msec_ticks (ToSecondsSigDigits slow_probe) 1000) = 47"
  by (simp add: slow_pass_measure sink_lines_fprintf)
    (simp add: slow_pass_def slow_probe_def msec_ticks_def round_def sink_lines_def quiet_world_def)

subsection \<open>The whole thread\<close>

lemma loop_body_lines:
  assumes "loop_body X a c p w = Some w'"
  shows "\<exists>ss. sink_lines w' (log_sink c) = sink_lines w (log_sink c) @ ss
            \<and> (\<forall>l\<in>set ss. is_sample l)"
proof -
  from assms obtain w1 ns where f: "fire_and_measure X a c p w = Some (w1, ns)"
    and w': "w' = sleep_unless_exit ns (exit_before_sleep p) w1"
    by (auto simp: loop_body_def split: option.splits)
  show ?thesis
  proof (cases "probe p")
    case None
    with f have "w1 = w" by (simp add: fire_and_measure_def)
    then have "sink_lines w' (log_sink c) = sink_lines w (log_sink c) @ []"
      by (simp add: w' sink_lines_sleep_unless_exit)
    then show ?thesis by (intro exI [of _ "[]"]) simp
  next
    case (Some d)
    with f have r: "report_sample X a c p d w = Some w1"
      by (simp add: fire_and_measure_Some)
    from report_sample_cases [OF r]
    consider n :: c_int
      where "w1 = fprintf (log_sink c) (Trace_sample (msec_since_epoch (now p)) (sint n)) w"
      | "w1 = w"
      by (auto split: if_splits)
    then show ?thesis
    proof cases
      case 1
      then have "sink_lines w' (log_sink c)
          = sink_lines w (log_sink c) @ [Trace_sample (msec_since_epoch (now p)) (sint n)]"
        by (simp add: w' sink_lines_sleep_unless_exit sink_lines_fprintf)
      then show ?thesis
        by (intro exI [of _ "[Trace_sample (msec_since_epoch (now p)) (sint n)]"]) simp
    next
      case 2
      then have "sink_lines w' (log_sink c) = sink_lines w (log_sink c) @ []"
        by (simp add: w' sink_lines_sleep_unless_exit)
      then show ?thesis by (intro exI [of _ "[]"]) simp
    qed
  qed
qed

text \<open>The loop writes sample lines only.\<close>

lemma tracer_loop_lines:
  assumes "tracer_loop X a c e ps w = Returned w'"
  shows "\<exists>ss. sink_lines w' (log_sink c) = sink_lines w (log_sink c) @ ss
            \<and> (\<forall>l\<in>set ss. is_sample l)"
  using assms
proof (induction X a c e ps w rule: tracer_loop.induct)
  case (1 X a c ps w)
  then have "sink_lines w' (log_sink c) = sink_lines w (log_sink c) @ []" by simp
  then show ?case by (intro exI [of _ "[]"]) simp
next
  case (2 X a c w)
  then show ?case by simp
next
  case (3 X a c p ps w)
  from "3.prems" obtain w1 where b: "loop_body X a c p w = Some w1"
    and l: "tracer_loop X a c (exit_after p) ps w1 = Returned w'"
    by (auto split: option.splits)
  from loop_body_lines [OF b] obtain s1 where
    s1: "sink_lines w1 (log_sink c) = sink_lines w (log_sink c) @ s1" "\<forall>l\<in>set s1. is_sample l"
    by blast
  from "3.IH" [OF b l] obtain s2 where
    s2: "sink_lines w' (log_sink c) = sink_lines w1 (log_sink c) @ s2" "\<forall>l\<in>set s2. is_sample l"
    by blast
  from s1 s2 show ?case
    by (intro exI [of _ "s1 @ s2"]) auto
qed

text \<open>
  The loop returns as soon as a test of the flag finds it set, provided the conversions
  of the passes before are defined; so does the thread.
\<close>

lemma tracer_loop_returns:
  assumes "\<forall>p\<in>set ps. convertible X p" and "e \<or> (\<exists>p\<in>set ps. exit_after p)"
  shows "\<exists>w'. tracer_loop X a c e ps w = Returned w'"
  using assms
proof (induction ps arbitrary: e w)
  case Nil
  then show ?case by simp
next
  case (Cons p ps)
  show ?case
  proof (cases e)
    case True
    then show ?thesis by simp
  next
    case False
    from Cons.prems(1) obtain w1 where b: "loop_body X a c p w = Some w1"
      using loop_body_defined [of X p a c w] by auto
    from Cons.prems False have "exit_after p \<or> (\<exists>q\<in>set ps. exit_after q)" by auto
    with Cons.IH [of "exit_after p" w1] Cons.prems(1)
    obtain w' where "tracer_loop X a c (exit_after p) ps w1 = Returned w'" by auto
    with False b show ?thesis by simp
  qed
qed

lemma TracerThread_returns:
  assumes "\<forall>p\<in>set (passes r). convertible X p"
    and "exit_at_entry r \<or> (\<exists>p\<in>set (passes r). exit_after p)"
  shows "\<exists>w'. TracerThread X a r w = Returned w'"
proof -
  obtain c w1 where rc: "resolve_config X (PR_GetEnv r) (can_open r) w = (c, w1)"
    by (cases "resolve_config X (PR_GetEnv r) (can_open r) w")
  from tracer_loop_returns [OF assms] obtain w3 where
    "tracer_loop X a c (exit_at_entry r) (passes r) (log_start a c (now_at_start r) w1) = Returned w3"
    by blast
  with rc show ?thesis by (simp add: TracerThread_def)
qed

lemma TracerThread_Returned:
  assumes "TracerThread X a r w = Returned w'"
  obtains c w1 w3 where "resolve_config X (PR_GetEnv r) (can_open r) w = (c, w1)"
    and "tracer_loop X a c (exit_at_entry r) (passes r) (log_start a c (now_at_start r) w1)
           = Returned w3"
    and "w' = log_stop a c (now_at_stop r) w3"
  using assms
  by (auto simp: TracerThread_def Let_def split: prod.splits outcome.splits)

lemma example_run_logging:
  "TracerThread msec_ticks logging example_run quiet_world
     = Returned \<lparr>console = [Trace_start 500, Trace_sample 2000 46, Trace_stop 4000],
                 files = Map.empty, open_files = [], sleeps = [7]\<rparr>"
proof -
  have "tracer_loop msec_ticks logging default_config False
          [fast_pass, slow_pass, interrupted_pass] w
        = Returned (fprintf Stdout (Trace_sample 2000 46) (PR_Sleep 7 w))" for w
    by (simp add: fast_pass_body slow_pass_body interrupted_pass_body example_passes_exit)
  then show ?thesis
    by (simp add: TracerThread_def example_run_def resolve_config_default log_start_def
        log_stop_def logging_def default_config_def fprintf_def PR_Sleep_def quiet_world_def
        msec_since_epoch_examples)
qed

text \<open>
  Claim C7. A thread started with logging enabled, once it has returned, has appended to
  its sink one start line, then sample lines only, then one stop line: exactly one start
  line, before every sample line, and exactly one stop line, after every sample line.
\<close>

theorem start_samples_stop:
  assumes "TracerThread X \<lparr>mLogTracing = True\<rparr> r w = Returned w'"
    and "resolve_config X (PR_GetEnv r) (can_open r) w = (c, w1)"
  shows "\<exists>ss. sink_lines w' (log_sink c)
              = sink_lines w1 (log_sink c)
                @ [Trace_start (msec_since_epoch (now_at_start r))] @ ss
                @ [Trace_stop (msec_since_epoch (now_at_stop r))]
            \<and> (\<forall>l\<in>set ss. is_sample l)"
proof -
  let ?a = "\<lparr>mLogTracing = True\<rparr>"
  from assms obtain w3 where
    l: "tracer_loop X ?a c (exit_at_entry r) (passes r) (log_start ?a c (now_at_start r) w1)
          = Returned w3"
    and w': "w' = log_stop ?a c (now_at_stop r) w3"
    by (auto elim!: TracerThread_Returned)
  from tracer_loop_lines [OF l] obtain ss where
    ss: "sink_lines w3 (log_sink c)
           = sink_lines (log_start ?a c (now_at_start r) w1) (log_sink c) @ ss"
    and sam: "\<forall>l\<in>set ss. is_sample l"
    by blast
  have "sink_lines (log_start ?a c (now_at_start r) w1) (log_sink c)
      = sink_lines w1 (log_sink c) @ [Trace_start (msec_since_epoch (now_at_start r))]"
    by (simp add: log_start_def sink_lines_fprintf)
  moreover have "sink_lines w' (log_sink c)
      = sink_lines w3 (log_sink c) @ [Trace_stop (msec_since_epoch (now_at_stop r))]"
    by (simp add: w' log_stop_def Let_def sink_lines_fprintf sink_lines_fclose)
  ultimately have "sink_lines w' (log_sink c)
      = sink_lines w1 (log_sink c) @ [Trace_start (msec_since_epoch (now_at_start r))] @ ss
        @ [Trace_stop (msec_since_epoch (now_at_stop r))]"
    using ss by simp
  with sam show ?thesis by blast
qed

text \<open>
  The run of three passes: the standard output receives the start line, the sample of the
  slow probe and the stop line.
\<close>

theorem start_samples_stop_witness:
  "TracerThread msec_ticks \<lparr>mLogTracing = True\<rparr> example_run quiet_world
     = Returned \<lparr>console = [Trace_start 500, Trace_sample 2000 46, Trace_stop 4000],
                 files = Map.empty, open_files = [], sleeps = [7]\<rparr>
   \<and> resolve_config msec_ticks (PR_GetEnv example_run) (can_open example_run) quiet_world
       = (default_config, quiet_world)
   \<and> (\<exists>ss. [Trace_start 500, Trace_sample 2000 46, Trace_stop 4000]
             = [Trace_start 500] @ ss @ [Trace_stop 4000]
          \<and> list_all is_sample ss)"
proof -
  let ?w' = "\<lparr>console = [Trace_start 500, Trace_sample 2000 46, Trace_stop 4000],
              files = Map.empty, open_files = [], sleeps = [7]\<rparr>"
  have h1: "TracerThread msec_ticks \<lparr>mLogTracing = True\<rparr> example_run quiet_world = Returned ?w'"
    using example_run_logging by (simp add: logging_def)
  have h2: "resolve_config msec_ticks (PR_GetEnv example_run) (can_open example_run) quiet_world
      = (default_config, quiet_world)"
    by (simp add: example_run_def resolve_config_default)
  from start_samples_stop [OF h1 h2] obtain ss where
    "sink_lines ?w' (log_sink default_config)
       = sink_lines quiet_world (log_sink default_config)
         @ [Trace_start (msec_since_epoch (now_at_start example_run))] @ ss
         @ [Trace_stop (msec_since_epoch (now_at_stop example_run))]"
    and "\<forall>l\<in>set ss. is_sample l"
    by blast
  then have "[Trace_start 500, Trace_sample 2000 46, Trace_stop 4000]
       = [Trace_start 500] @ ss @ [Trace_stop 4000] \<and> list_all is_sample ss"
    by (simp add: sink_lines_def default_config_def quiet_world_def example_run_def
        msec_since_epoch_examples list_all_iff)
  with h1 h2 show ?thesis by blast
qed

subsection \<open>A thread started with logging disabled\<close>

lemma open_log_effect:
  assumes "open_log ok envfile w = (f, w1)"
  shows "console w1 = console w"
    and "files w1 = (case envfile of
                       None \<Rightarrow> files w
                     | Some path \<Rightarrow> if ok path then (files w)(path \<mapsto> []) else files w)"
    and "open_files w1 = (case f of Stdout \<Rightarrow> open_files w | File path \<Rightarrow> path # open_files w)"
  using assms
  by (auto simp: open_log_def fopen_w_def split: option.splits if_splits)

lemma resolve_config_sink:
  "log_sink (fst (resolve_config X env ok w))
     = fst (open_log ok (env ''MOZ_INSTRUMENT_EVENT_LOOP_OUTPUT'') w)"
  by (simp add: resolve_config_def Let_def split: prod.splits)

lemma resolve_config_world:
  "snd (resolve_config X env ok w) = snd (open_log ok (env ''MOZ_INSTRUMENT_EVENT_LOOP_OUTPUT'') w)"
  by (simp add: resolve_config_def Let_def split: prod.splits)

lemma report_sample_silent: "report_sample X \<lparr>mLogTracing = False\<rparr> c p d w = Some w"
  by (simp add: report_sample_def)

lemma sleep_unless_exit_frame:
  "console (sleep_unless_exit n e w) = console w"
  "files (sleep_unless_exit n e w) = files w"
  "open_files (sleep_unless_exit n e w) = open_files w"
  by (simp_all add: sleep_unless_exit_def PR_Sleep_def)

lemma loop_body_silent:
  assumes "loop_body X \<lparr>mLogTracing = False\<rparr> c p w = Some w'"
  shows "console w' = console w \<and> files w' = files w \<and> open_files w' = open_files w"
proof -
  from assms obtain w1 ns
    where f: "fire_and_measure X \<lparr>mLogTracing = False\<rparr> c p w = Some (w1, ns)"
      and w': "w' = sleep_unless_exit ns (exit_before_sleep p) w1"
    by (auto simp: loop_body_def split: option.splits)
  from f have "w1 = w"
    by (cases "probe p") (auto simp: fire_and_measure_def report_sample_silent split: option.splits)
  with w' show ?thesis by (simp add: sleep_unless_exit_frame)
qed

lemma tracer_loop_silent:
  assumes "tracer_loop X \<lparr>mLogTracing = False\<rparr> c e ps w = Returned w'"
  shows "console w' = console w \<and> files w' = files w \<and> open_files w' = open_files w"
  using assms
proof (induction X "\<lparr>mLogTracing = False\<rparr>" c e ps w rule: tracer_loop.induct)
  case (1 X c ps w)
  then show ?case by simp
next
  case (2 X c w)
  then show ?case by simp
next
  case (3 X c p ps w)
  from "3.prems" obtain w1 where b: "loop_body X \<lparr>mLogTracing = False\<rparr> c p w = Some w1"
    and l: "tracer_loop X \<lparr>mLogTracing = False\<rparr> c (exit_after p) ps w1 = Returned w'"
    by (auto split: option.splits)
  from "3.hyps" [OF b l] loop_body_silent [OF b] show ?case by simp
qed

lemma slow_pass_body_silent:
  "loop_body msec_ticks silent default_config slow_pass w = Some w"
  by (simp add: loop_body_def fire_and_measure_def report_sample_silent adjust_sleep_def
      slow_pass_def slow_probe_def default_config_def silent_def sleep_unless_exit_def)

lemma file_run_silent:
  "TracerThread msec_ticks silent file_run old_log_world
     = Returned \<lparr>console = [], files = [''trace.log'' \<mapsto> []], open_files = [], sleeps = [7]\<rparr>"
proof -
  let ?c = "default_config\<lparr>log_sink := File ''trace.log''\<rparr>"
  have b: "loop_body msec_ticks silent ?c p w = loop_body msec_ticks silent default_config p w"
    for p w
    by (simp add: loop_body_def fire_and_measure_def Let_def report_sample_silent silent_def
        cong: option.case_cong)
  have "tracer_loop msec_ticks silent ?c False [fast_pass, slow_pass, interrupted_pass] w
        = Returned (PR_Sleep 7 w)" for w
    by (simp add: b fast_pass_body slow_pass_body_silent interrupted_pass_body
        example_passes_exit)
  moreover have "resolve_config msec_ticks (PR_GetEnv file_run) (can_open file_run) old_log_world
      = (?c, old_log_world\<lparr>files := [''trace.log'' \<mapsto> []], open_files := [''trace.log'']\<rparr>)"
    by (simp add: resolve_config_def open_log_def fopen_w_def env_override_def file_run_def
        old_log_world_def msec_ticks_def any_file_def default_config_def)
  ultimately show ?thesis
    by (simp add: TracerThread_def file_run_def silent_def log_start_def log_stop_def
        fclose_def PR_Sleep_def old_log_world_def)
qed

text \<open>
  Claim C3, amended. A thread started with logging disabled, once stopped, has written no
  line: the standard output is as before, and so is every file but the one named by
  \<^verbatim>\<open>MOZ_INSTRUMENT_EVENT_LOOP_OUTPUT\<close>. That file, when it can be opened, has been
  opened for writing, which creates it or empties it, holds no line, and has been closed
  again: the files open are those open before.
\<close>

theorem silent_thread_effect:
  assumes "TracerThread X \<lparr>mLogTracing = False\<rparr> r w = Returned w'"
  shows "console w' = console w
       \<and> files w' = (case PR_GetEnv r ''MOZ_INSTRUMENT_EVENT_LOOP_OUTPUT'' of
                       None \<Rightarrow> files w
                     | Some path \<Rightarrow> if can_open r path then (files w)(path \<mapsto> []) else files w)
       \<and> open_files w' = open_files w"
proof -
  let ?a = "\<lparr>mLogTracing = False\<rparr>"
  from assms obtain c w1 w3 where
    rc: "resolve_config X (PR_GetEnv r) (can_open r) w = (c, w1)"
    and l: "tracer_loop X ?a c (exit_at_entry r) (passes r) (log_start ?a c (now_at_start r) w1)
              = Returned w3"
    and w': "w' = log_stop ?a c (now_at_stop r) w3"
    by (rule TracerThread_Returned)
  have ol: "open_log (can_open r) (PR_GetEnv r ''MOZ_INSTRUMENT_EVENT_LOOP_OUTPUT'') w
      = (log_sink c, w1)"
    using rc resolve_config_world [of X "PR_GetEnv r" "can_open r" w]
      resolve_config_sink [of X "PR_GetEnv r" "can_open r" w]
    by (cases "open_log (can_open r) (PR_GetEnv r ''MOZ_INSTRUMENT_EVENT_LOOP_OUTPUT'') w") simp
  have loop: "console w3 = console w1 \<and> files w3 = files w1 \<and> open_files w3 = open_files w1"
    using tracer_loop_silent [OF l] by (simp add: log_start_def)
  have "console w' = console w3 \<and> files w' = files w3"
    by (cases "log_sink c") (simp_all add: w' log_stop_def fclose_def)
  moreover have "open_files w' = open_files w"
    using open_log_effect(3) [OF ol] loop
    by (cases "log_sink c") (simp_all add: w' log_stop_def fclose_def)
  ultimately show ?thesis
    using open_log_effect(1,2) [OF ol] loop by simp
qed

text \<open>
  The three passes with the output redirected to \<^verbatim>\<open>trace.log\<close> and logging
  disabled: the slow probe writes nothing, and the file is left empty and closed.
\<close>

theorem silent_thread_effect_witness:
  "TracerThread msec_ticks \<lparr>mLogTracing = False\<rparr> file_run old_log_world
     = Returned \<lparr>console = [], files = [''trace.log'' \<mapsto> []], open_files = [], sleeps = [7]\<rparr>
   \<and> console \<lparr>console = [], files = [''trace.log'' \<mapsto> []], open_files = [], sleeps = [7]\<rparr>
       = console old_log_world
   \<and> files \<lparr>console = [], files = [''trace.log'' \<mapsto> []], open_files = [], sleeps = [7]\<rparr>
       = (files old_log_world)(''trace.log'' \<mapsto> [])
   \<and> open_files \<lparr>console = [], files = [''trace.log'' \<mapsto> []], open_files = [], sleeps = [7]\<rparr>
       = open_files old_log_world"
proof -
  let ?w' = "\<lparr>console = [], files = [''trace.log'' \<mapsto> []], open_files = [], sleeps = [7]\<rparr>"
  have h: "TracerThread msec_ticks \<lparr>mLogTracing = False\<rparr> file_run old_log_world = Returned ?w'"
    using file_run_silent by (simp add: silent_def)
  have e: "PR_GetEnv file_run ''MOZ_INSTRUMENT_EVENT_LOOP_OUTPUT'' = Some ''trace.log''"
    "can_open file_run ''trace.log''"
    by (simp_all add: file_run_def any_file_def)
  from silent_thread_effect [OF h] have "console ?w' = console old_log_world
      \<and> files ?w' = (files old_log_world)(''trace.log'' \<mapsto> [])
      \<and> open_files ?w' = open_files old_log_world"
    by (simp only: e option.case if_True)
  with h show ?thesis by blast
qed

text \<open>
  The claim as first stated, with the output file not modified, fails on that run: the
  earlier log in \<^verbatim>\<open>trace.log\<close> is gone.
\<close>

theorem silent_thread_truncates_counterexample:
  "TracerThread msec_ticks silent file_run old_log_world
     = Returned \<lparr>console = [], files = [''trace.log'' \<mapsto> []], open_files = [], sleeps = [7]\<rparr>
   \<and> mLogTracing silent = False
   \<and> files old_log_world ''trace.log'' = Some [Trace_start 1, Trace_stop 2]
   \<and> files \<lparr>console = [], files = [''trace.log'' \<mapsto> []], open_files = [], sleeps = [7]\<rparr>
       ''trace.log'' = Some []"
  by (simp add: file_run_silent) (simp add: silent_def old_log_world_def)

subsection \<open>Resolving the threshold and the interval\<close>

lemma resolve_config_threshold:
  "threshold (fst (resolve_config X env ok w))
     = env_override X (env ''MOZ_INSTRUMENT_EVENT_LOOP_THRESHOLD'') (PR_MillisecondsToInterval X 20)"
  by (simp add: resolve_config_def Let_def split: prod.splits)

lemma resolve_config_interval:
  "interval (fst (resolve_config X env ok w))
     = env_override X (env ''MOZ_INSTRUMENT_EVENT_LOOP_INTERVAL'') (PR_MillisecondsToInterval X 10)"
  by (simp add: resolve_config_def Let_def split: prod.splits)

lemma env_override_accept:
  assumes "s \<noteq> []" and "atoi X s \<noteq> 0" and "atoi X s \<noteq> INT_MAX" and "atoi X s \<noteq> INT_MIN"
  shows "env_override X (Some s) current = PR_MillisecondsToInterval X (atoi X s)"
  using assms by (simp add: env_override_def)

lemma env_override_reject:
  assumes "s = [] \<or> atoi X s = 0 \<or> atoi X s = INT_MAX \<or> atoi X s = INT_MIN"
  shows "env_override X (Some s) current = current"
  using assms by (auto simp: env_override_def)

lemma decimal_value_Nil: "decimal_value [] = 0"
  by (simp add: decimal_value_def)

text \<open>
  With a conforming \<^verbatim>\<open>atoi\<close>, on a string whose number fits \<^verbatim>\<open>int\<close> the
  three guards of the code pass exactly when the number is not zero and lies strictly
  inside the range.
\<close>

lemma conforming_guard:
  assumes "atoi_conforming f"
    and "- (2 ^ 31) \<le> decimal_value s" and "decimal_value s < 2 ^ 31"
  shows "f s \<noteq> 0 \<and> f s \<noteq> INT_MAX \<and> f s \<noteq> INT_MIN
     \<longleftrightarrow> decimal_value s \<noteq> 0 \<and> - (2 ^ 31) < decimal_value s \<and> decimal_value s < 2 ^ 31 - 1"
proof -
  define v where "v = decimal_value s"
  from assms have a: "f s = word_of_int v"
    by (simp add: atoi_conforming_def v_def)
  from assms(2,3) have r: "- (2 ^ 31) \<le> v" "v < 2 ^ 31" by (simp_all add: v_def)
  have s: "sint (f s) = v"
    using r by (simp add: a sint_sbintrunc' signed_take_bit_int_eq_self)
  have "f s = 0 \<longleftrightarrow> v = 0"
    using s by (simp add: word_eq_iff_signed [where 'a = int])
  moreover have "f s = INT_MAX \<longleftrightarrow> v = 2 ^ 31 - 1"
    using s by (simp add: word_eq_iff_signed [where 'a = int] INT_MAX_def)
  moreover have "f s = INT_MIN \<longleftrightarrow> v = - (2 ^ 31)"
    using s by (simp add: word_eq_iff_signed [where 'a = int] INT_MIN_def)
  ultimately show ?thesis using r unfolding v_def by auto
qed

text \<open>Both libraries conform.\<close>

lemma atoi_lp64_conforming: "atoi_conforming atoi_lp64"
  by (simp add: atoi_conforming_def atoi_lp64_def)

lemma atoi_saturating_conforming: "atoi_conforming atoi_saturating"
  by (simp add: atoi_conforming_def atoi_saturating_def)

lemma env_override_conforming:
  assumes "atoi_conforming (atoi X)" and "override_rule X dflt e = Some t"
  shows "env_override X e (PR_MillisecondsToInterval X dflt) = t"
proof (cases e)
  case None
  with assms(2) show ?thesis by (simp add: env_override_def override_rule_def)
next
  case (Some s)
  with assms(2) have r: "- (2 ^ 31) \<le> decimal_value s" "decimal_value s < 2 ^ 31"
    by (auto simp: override_rule_def split: if_splits)
  show ?thesis
  proof (cases "decimal_value s \<noteq> 0 \<and> - (2 ^ 31) < decimal_value s \<and> decimal_value s < 2 ^ 31 - 1")
    case True
    with r assms(2) have t: "t = PR_MillisecondsToInterval X (word_of_int (decimal_value s))"
      by (simp add: Some override_rule_def)
    from True have g: "atoi X s \<noteq> 0 \<and> atoi X s \<noteq> INT_MAX \<and> atoi X s \<noteq> INT_MIN"
      using conforming_guard [OF assms(1) r] by simp
    from True have "s \<noteq> []" by (auto simp: decimal_value_Nil)
    moreover from assms(1) r have "atoi X s = word_of_int (decimal_value s)"
      by (simp add: atoi_conforming_def)
    ultimately show ?thesis
      using g by (simp add: Some env_override_accept t)
  next
    case False
    with r assms(2) have t: "t = PR_MillisecondsToInterval X dflt"
      by (auto simp: Some override_rule_def split: if_splits)
    from False have "atoi X s = 0 \<or> atoi X s = INT_MAX \<or> atoi X s = INT_MIN"
      using conforming_guard [OF assms(1) r] by auto
    then show ?thesis
      by (simp add: Some env_override_reject t)
  qed
qed

lemma atoi_examples:
  "atoi msec_ticks ''-5'' = 4294967291"
  "atoi msec_ticks ''2147483647'' = INT_MAX"
  "decimal_value ''2147483647'' = 2147483647"
  by (simp_all add: msec_ticks_def atoi_lp64_def decimal_value_def isspace_def isdigit_def
      INT_MAX_def)

text \<open>
  On a number that does not fit \<^verbatim>\<open>int\<close> the two libraries part: the string
  \<^verbatim>\<open>9999999999\<close> is taken as 1410065407 with the LP64 library, which the guards
  do not catch, and leaves the default with the saturating one.
\<close>

lemma overflow_lp64_accepted:
  "threshold (fst (resolve_config msec_ticks overflow_env no_files w)) = 1410065407"
  by (simp add: resolve_config_threshold env_override_def overflow_env_def msec_ticks_def
      atoi_lp64_def decimal_value_def isspace_def isdigit_def INT_MAX_def INT_MIN_def)

lemma overflow_saturating_default:
  "threshold (fst (resolve_config (msec_ticks\<lparr>atoi := atoi_saturating\<rparr>) overflow_env no_files w))
     = 20"
  by (simp add: resolve_config_threshold env_override_def overflow_env_def msec_ticks_def
      atoi_saturating_def decimal_value_def isspace_def isdigit_def INT_MAX_def INT_MIN_def)

text \<open>
  Claim C4, amended. With a conforming \<^verbatim>\<open>atoi\<close>: an override string whose number
  is not zero and lies strictly between \<^verbatim>\<open>INT_MIN\<close> and \<^verbatim>\<open>INT_MAX\<close> resolves
  to that number, converted to unsigned 32 bits and from milliseconds to an interval; an
  absent variable, an empty string, a string that is not a number or denotes zero, and
  the numbers \<^verbatim>\<open>INT_MAX\<close> and \<^verbatim>\<open>INT_MIN\<close> themselves resolve to the default,
  20 ms for the threshold and 10 ms for the interval. Nothing is stated of a number that
  does not fit \<^verbatim>\<open>int\<close>.
\<close>

theorem override_resolution:
  assumes "atoi_conforming (atoi X)"
  shows "(\<forall>t. override_rule X 20 (env ''MOZ_INSTRUMENT_EVENT_LOOP_THRESHOLD'') = Some t
            \<longrightarrow> threshold (fst (resolve_config X env ok w)) = t)
       \<and> (\<forall>i. override_rule X 10 (env ''MOZ_INSTRUMENT_EVENT_LOOP_INTERVAL'') = Some i
            \<longrightarrow> interval (fst (resolve_config X env ok w)) = i)"
  by (simp add: resolve_config_threshold resolve_config_interval
      env_override_conforming [OF assms])

text \<open>
  A threshold of \<^verbatim>\<open>250\<close> is taken; an interval of \<^verbatim>\<open>soon\<close> is not a number and
  leaves the default of 10.
\<close>

theorem override_resolution_witness:
  "atoi_conforming (atoi msec_ticks)
   \<and> override_rule msec_ticks 20 (tuned_env ''MOZ_INSTRUMENT_EVENT_LOOP_THRESHOLD'') = Some 250
   \<and> override_rule msec_ticks 10 (tuned_env ''MOZ_INSTRUMENT_EVENT_LOOP_INTERVAL'') = Some 10
   \<and> threshold (fst (resolve_config msec_ticks tuned_env no_files quiet_world)) = 250
   \<and> interval (fst (resolve_config msec_ticks tuned_env no_files quiet_world)) = 10"
proof -
  have h: "atoi_conforming (atoi msec_ticks)"
    using atoi_lp64_conforming by (simp add: msec_ticks_def)
  have r: "override_rule msec_ticks 20 (tuned_env ''MOZ_INSTRUMENT_EVENT_LOOP_THRESHOLD'') = Some 250"
    "override_rule msec_ticks 10 (tuned_env ''MOZ_INSTRUMENT_EVENT_LOOP_INTERVAL'') = Some 10"
    by (simp_all add: override_rule_def tuned_env_def decimal_value_def isspace_def isdigit_def
        msec_ticks_def)
  from override_resolution [OF h, of tuned_env no_files quiet_world] r
  have "threshold (fst (resolve_config msec_ticks tuned_env no_files quiet_world)) = 250
      \<and> interval (fst (resolve_config msec_ticks tuned_env no_files quiet_world)) = 10"
    by blast
  with h r show ?thesis by blast
qed

text \<open>
  The claim as first stated fails for the string \<^verbatim>\<open>2147483647\<close>: it is a nonzero
  number that fits \<^verbatim>\<open>int\<close> without overflow, yet the threshold resolves to the default
  of 20 ms and not to 2147483647 ms.
\<close>

theorem int_max_override_counterexample:
  "int_max_env ''MOZ_INSTRUMENT_EVENT_LOOP_THRESHOLD'' = Some ''2147483647''
   \<and> decimal_value ''2147483647'' = 2 ^ 31 - 1
   \<and> threshold (fst (resolve_config msec_ticks int_max_env no_files quiet_world))
       = PR_MillisecondsToInterval msec_ticks 20
   \<and> PR_MillisecondsToInterval msec_ticks 20
       \<noteq> PR_MillisecondsToInterval msec_ticks (word_of_int (decimal_value ''2147483647''))"
proof -
  have e: "int_max_env ''MOZ_INSTRUMENT_EVENT_LOOP_THRESHOLD'' = Some ''2147483647''"
    by (simp add: int_max_env_def)
  have "env_override msec_ticks (Some ''2147483647'') (PR_MillisecondsToInterval msec_ticks 20)
      = PR_MillisecondsToInterval msec_ticks 20"
    by (rule env_override_reject) (simp add: atoi_examples)
  then have "threshold (fst (resolve_config msec_ticks int_max_env no_files quiet_world))
      = PR_MillisecondsToInterval msec_ticks 20"
    by (simp add: resolve_config_threshold e)
  moreover have "PR_MillisecondsToInterval msec_ticks 20
      \<noteq> PR_MillisecondsToInterval msec_ticks (word_of_int (decimal_value ''2147483647''))"
    by (simp add: atoi_examples) (simp add: msec_ticks_def)
  ultimately show ?thesis
    using e by (simp add: atoi_examples)
qed

text \<open>
  Claim C10. An override string that \<^verbatim>\<open>atoi\<close> reads as a negative number other than
  \<^verbatim>\<open>INT_MIN\<close> is accepted: the threshold or the interval becomes
  \<^verbatim>\<open>PR_MillisecondsToInterval\<close> of that number, and the default is not kept for the
  number being negative.
\<close>

theorem negative_override_accepted:
  assumes "s \<noteq> []" and "sint (atoi X s) < 0" and "atoi X s \<noteq> INT_MIN"
  shows "(env ''MOZ_INSTRUMENT_EVENT_LOOP_THRESHOLD'' = Some s \<longrightarrow>
            threshold (fst (resolve_config X env ok w)) = PR_MillisecondsToInterval X (atoi X s))
       \<and> (env ''MOZ_INSTRUMENT_EVENT_LOOP_INTERVAL'' = Some s \<longrightarrow>
            interval (fst (resolve_config X env ok w)) = PR_MillisecondsToInterval X (atoi X s))"
proof -
  from assms(2) have "atoi X s \<noteq> 0" by auto
  moreover from assms(2) have "atoi X s \<noteq> INT_MAX" by (auto simp: INT_MAX_def)
  ultimately have "env_override X (Some s) current = PR_MillisecondsToInterval X (atoi X s)"
    for current
    using assms(1,3) by (simp add: env_override_accept)
  then show ?thesis
    by (simp add: resolve_config_threshold resolve_config_interval)
qed

text \<open>
  The string \<^verbatim>\<open>-5\<close>: both values become 4294967291 ticks (the number -5 read as
  unsigned), not the defaults 20 and 10.
\<close>

theorem negative_override_accepted_witness:
  "''-5'' \<noteq> [] \<and> sint (atoi msec_ticks ''-5'') < 0 \<and> atoi msec_ticks ''-5'' \<noteq> INT_MIN
   \<and> negative_env ''MOZ_INSTRUMENT_EVENT_LOOP_THRESHOLD'' = Some ''-5''
   \<and> negative_env ''MOZ_INSTRUMENT_EVENT_LOOP_INTERVAL'' = Some ''-5''
   \<and> threshold (fst (resolve_config msec_ticks negative_env no_files quiet_world)) = 4294967291
   \<and> interval (fst (resolve_config msec_ticks negative_env no_files quiet_world)) = 4294967291"
proof -
  have h1: "''-5'' \<noteq> []" by simp
  have h2: "sint (atoi msec_ticks ''-5'') < 0" by (simp add: atoi_examples)
  have h3: "atoi msec_ticks ''-5'' \<noteq> INT_MIN" by (simp add: atoi_examples INT_MIN_def)
  have e: "negative_env ''MOZ_INSTRUMENT_EVENT_LOOP_THRESHOLD'' = Some ''-5''"
    "negative_env ''MOZ_INSTRUMENT_EVENT_LOOP_INTERVAL'' = Some ''-5''"
    by (simp_all add: negative_env_def)
  have m: "PR_MillisecondsToInterval msec_ticks (atoi msec_ticks ''-5'') = 4294967291"
    by (simp add: atoi_examples) (simp add: msec_ticks_def)
  from negative_override_accepted [OF h1 h2 h3, of negative_env no_files quiet_world] e m
  have "threshold (fst (resolve_config msec_ticks negative_env no_files quiet_world)) = 4294967291
      \<and> interval (fst (resolve_config msec_ticks negative_env no_files quiet_world)) = 4294967291"
    by simp
  with h1 h2 h3 e show ?thesis by blast
qed

subsection \<open>Starting and stopping\<close>

lemma InitEventTracing_running:
  "sTracerThread s \<noteq> None \<Longrightarrow> InitEventTracing aLog widget_ok created s = (True, s)"
  by (simp add: InitEventTracing_def)

text \<open>A start that fails has created no thread and leaves the handle \<^verbatim>\<open>NULL\<close>.\<close>

lemma failed_start_no_thread:
  assumes "InitEventTracing aLog widget_ok created s = (False, s')"
  shows "sTracerThread s' = None \<and> threads s' = threads s"
  using assms
  by (cases created; cases widget_ok)
    (auto simp: InitEventTracing_def InitWidgetTracing_def PR_CreateThread_def
      split: if_splits)

text \<open>A start that creates a thread hands it a closure holding the caller's flag.\<close>

lemma InitEventTracing_closure:
  assumes "sTracerThread s = None"
    and "InitEventTracing aLog widget_ok created s = (True, s')"
  shows "\<exists>t. sTracerThread s' = Some t
           \<and> threads s' = threads s @ [(t, \<lparr>mLogTracing = aLog\<rparr>)]"
  using assms
  by (cases created; cases widget_ok)
    (auto simp: InitEventTracing_def InitWidgetTracing_def PR_CreateThread_def)

lemma single_tracer_Init:
  assumes "single_tracer s"
  shows "single_tracer (snd (InitEventTracing aLog widget_ok created s))"
proof (cases "sTracerThread s")
  case (Some t)
  then show ?thesis using assms by (simp add: InitEventTracing_def)
next
  case None
  with assms have "threads s = []" by (simp add: single_tracer_def)
  with None show ?thesis
    by (cases created; cases widget_ok)
      (simp_all add: InitEventTracing_def InitWidgetTracing_def PR_CreateThread_def
        single_tracer_def)
qed

lemma single_tracer_Shutdown:
  assumes "single_tracer s"
  shows "single_tracer (ShutdownEventTracing s)"
  using assms
  by (cases "sTracerThread s")
    (auto simp: ShutdownEventTracing_def single_tracer_def PR_JoinThread_def
      CleanUpWidgetTracing_def)

lemma single_tracer_do_call: "single_tracer s \<Longrightarrow> single_tracer (do_call c s)"
  by (cases c) (simp_all add: single_tracer_Init single_tracer_Shutdown)

lemma single_tracer_foldl:
  "single_tracer s \<Longrightarrow> single_tracer (foldl (\<lambda>s c. do_call c s) s cs)"
  by (induction cs arbitrary: s) (simp_all add: single_tracer_do_call)

lemma single_tracer_after_calls: "single_tracer (after_calls cs)"
  unfolding after_calls_def
  by (rule single_tracer_foldl) (simp add: single_tracer_def process_start_def)

text \<open>
  Claim C6. After any sequence of starts and stops at most one tracer thread is alive,
  and a start made while one is alive returns success and changes nothing: it creates no
  second thread.
\<close>

theorem at_most_one_tracer:
  "length (threads (after_calls cs)) \<le> 1
   \<and> (threads (after_calls cs) \<noteq> [] \<longrightarrow>
        InitEventTracing aLog widget_ok created (after_calls cs) = (True, after_calls cs))"
proof -
  have inv: "single_tracer (after_calls cs)" by (rule single_tracer_after_calls)
  then have "length (threads (after_calls cs)) \<le> 1"
    by (auto simp: single_tracer_def split: option.splits)
  moreover have "sTracerThread (after_calls cs) \<noteq> None" if "threads (after_calls cs) \<noteq> []"
    using inv that by (auto simp: single_tracer_def split: option.splits)
  ultimately show ?thesis
    by (simp add: InitEventTracing_running)
qed

text \<open>
  Two starts in a row, both of which could create a thread: the first thread is the only
  one, and a third start returns success with the process unchanged.
\<close>

theorem at_most_one_tracer_witness:
  "threads (after_calls two_starts) = [(1, logging)]
   \<and> threads (after_calls two_starts) \<noteq> []
   \<and> InitEventTracing False True (Some 3) (after_calls two_starts) = (True, after_calls two_starts)"
proof -
  have t: "threads (after_calls two_starts) = [(1, logging)]"
    by (simp add: after_calls_def two_starts_def InitEventTracing_def InitWidgetTracing_def
        PR_CreateThread_def process_start_def logging_def)
  then have n: "threads (after_calls two_starts) \<noteq> []" by simp
  from at_most_one_tracer [of two_starts False True "Some 3"] n t show ?thesis
    by blast
qed

text \<open>
  Claim C5 states that a failed start leaves no collaborator resources initialized. When
  \<^verbatim>\<open>InitWidgetTracing\<close> succeeds and \<^verbatim>\<open>PR_CreateThread\<close> returns \<^verbatim>\<open>NULL\<close>,
  the start returns failure with no thread, but the widget backend stays initialized:
  \<^verbatim>\<open>CleanUpWidgetTracing\<close> is not called, and a later
  \<^verbatim>\<open>ShutdownEventTracing\<close> returns at once because the handle is \<^verbatim>\<open>NULL\<close>.
\<close>

theorem failed_spawn_keeps_widget_tracing:
  "InitEventTracing True True None process_start
     = (False, process_start\<lparr>widget_tracing := True\<rparr>)
   \<and> threads (process_start\<lparr>widget_tracing := True\<rparr>) = []
   \<and> widget_tracing (process_start\<lparr>widget_tracing := True\<rparr>)
   \<and> ShutdownEventTracing (process_start\<lparr>widget_tracing := True\<rparr>)
       = process_start\<lparr>widget_tracing := True\<rparr>"
  by (simp add: InitEventTracing_def InitWidgetTracing_def PR_CreateThread_def
      ShutdownEventTracing_def process_start_def)

end
